theory Spec2Isabelle
  imports Complex_Main "HOL-Library.Sublist"
begin

section \<open>JavaScript strings\<close>

text \<open>
  Strings are lists of 8-bit code units (\<^typ>\<open>string\<close>), so the model covers the texts whose
  code units lie in the Latin-1 range. The built-in methods the program calls are written
  out for that range as ECMA-262 defines them.
\<close>

definition isWhiteSpace :: "char \<Rightarrow> bool" where
  \<comment> \<open>WhiteSpace and LineTerminator code units below 256: TAB, LF, VT, FF, CR, SP, NBSP.\<close>
  "isWhiteSpace c = (c \<in> set [CHR 0x09, CHR 0x0A, CHR 0x0B, CHR 0x0C, CHR 0x0D, CHR 0x20, CHR 0xA0])"

definition trim :: "string \<Rightarrow> string" where
  \<comment> \<open>\<^verbatim>\<open>String.prototype.trim\<close>\<close>
  "trim s = rev (dropWhile isWhiteSpace (rev (dropWhile isWhiteSpace s)))"

definition startsWith :: "string \<Rightarrow> string \<Rightarrow> bool" where
  \<comment> \<open>\<^verbatim>\<open>s.startsWith(p)\<close>\<close>
  "startsWith s p = (take (length p) s = p)"

abbreviation apos :: string where
  \<comment> \<open>the apostrophe, where a template literal puts one next to an interpolation\<close>
  "apos \<equiv> [CHR 0x27]"

definition toLowerChar :: "char \<Rightarrow> char" where
  \<comment> \<open>The cased code units below 256: A-Z, and U+00C0..U+00DE without the sign U+00D7.\<close>
  "toLowerChar c =
     (let n = (of_char c :: nat)
      in if (65 \<le> n \<and> n \<le> 90) \<or> (192 \<le> n \<and> n \<le> 222 \<and> n \<noteq> 215)
         then char_of (n + 32) else c)"

definition toLowerCase :: "string \<Rightarrow> string" where
  \<comment> \<open>\<^verbatim>\<open>String.prototype.toLowerCase\<close>\<close>
  "toLowerCase s = map toLowerChar s"

section \<open>The external generation API and the outside world\<close>

record request =
  model :: string
  contents :: string
  systemInstruction :: string
  temperature :: rat
  topP :: rat

text \<open>
  A \<^verbatim>\<open>catch\<close> clause receives whatever was thrown: an instance of \<^verbatim>\<open>Error\<close> with its
  message, or any other value.
\<close>

datatype thrown = ErrorInstance string | NonError

text \<open>
  \<^verbatim>\<open>await ai.models.generateContent(...)\<close> either resolves to a response, whose \<^verbatim>\<open>text\<close>
  is a string or \<^verbatim>\<open>undefined\<close>, or rejects.
\<close>

datatype outcome = Response "string option" | Rejects thrown

type_synonym gemini = "request \<Rightarrow> outcome"

record world =
  api_calls :: "request list"
  console :: "string list"
  localStorage :: "string \<rightharpoonup> string"

definition generateContent :: "gemini \<Rightarrow> request \<Rightarrow> world \<Rightarrow> outcome \<times> world" where
  \<comment> \<open>One network call: the request is logged and the collaborator answers.\<close>
  "generateContent api req w = (api req, w\<lparr>api_calls := api_calls w @ [req]\<rparr>)"

definition trimOfUndefined :: string where
  \<comment> \<open>The message of the TypeError that \<^verbatim>\<open>response.text.trim()\<close> throws on an undefined
      \<^verbatim>\<open>text\<close> (the wording of V8).\<close>
  "trimOfUndefined = ''Cannot read properties of undefined (reading 'trim')''"

definition responseTextTrim :: "outcome \<Rightarrow> thrown + string" where
  \<comment> \<open>The body of the \<^verbatim>\<open>try\<close> after the call: \<^verbatim>\<open>return response.text.trim()\<close>.\<close>
  "responseTextTrim r =
     (case r of
        Rejects e \<Rightarrow> Inl e
      | Response None \<Rightarrow> Inl (ErrorInstance trimOfUndefined)
      | Response (Some t) \<Rightarrow> Inr (trim t))"

section \<open>Prompt Service (the service used by the Controller)\<close>

definition callGemini :: "gemini \<Rightarrow> string \<Rightarrow> string \<Rightarrow> world \<Rightarrow> string \<times> world" where
  "callGemini api prompt sysInstr w =
     (if trim prompt = [] then ([], w)
      else
        let (r, w1) = generateContent api
               \<lparr>model = ''gemini-2.5-flash'', contents = prompt,
                systemInstruction = sysInstr, temperature = 0.8, topP = 0.9\<rparr> w
        in case responseTextTrim r of
             Inr t \<Rightarrow> (t, w1)
           | Inl error \<Rightarrow>
               (let w2 = w1\<lparr>console := console w1 @ [''Error calling Gemini API:'']\<rparr>
                in case error of
                     ErrorInstance message \<Rightarrow> (''Error: Failed to process text. '' @ message, w2)
                   | NonError \<Rightarrow> (''An unknown error occurred while processing text.'', w2)))"

definition refineSystemInstruction :: string where
  "refineSystemInstruction =
     ''You are a linguistic expert specializing in text transformation. Your task is to rewrite the user's text into a specific tone while preserving the core message and the original language. You are proficient in English, Banglish (Bengali in English letters), and Bengali (Bangla script). Do not add any extra commentary, just provide the refined text.''"

definition refinePrompt :: "string \<Rightarrow> string \<Rightarrow> string \<Rightarrow> string" where
  \<comment> \<open>The template literal of \<^verbatim>\<open>refineText\<close>, line breaks and indentation included.\<close>
  "refinePrompt text language tone =
     ''\<newline>    Please refine the following '' @ apos @ language @ apos @ '' text into a '' @ apos @ tone @ apos @ '' tone.\<newline>''
     @ ''    Ensure the output remains in '' @ apos @ language @ apos @ ''.\<newline>''
     @ ''\<newline>''
     @ ''    Original Text:\<newline>''
     @ ''    ---\<newline>''
     @ ''    '' @ text @ ''\<newline>''
     @ ''    ---\<newline>''
     @ ''  ''"

definition refineText :: "gemini \<Rightarrow> string \<Rightarrow> string \<Rightarrow> string \<Rightarrow> world \<Rightarrow> string \<times> world" where
  "refineText api text language tone w =
     callGemini api (refinePrompt text language tone) refineSystemInstruction w"

definition convertSystemInstruction :: string where
  "convertSystemInstruction =
     ''You are an expert linguist specializing in translating and transliterating 'Banglish' (Bengali written using the English alphabet) into fluent, grammatically correct English. After translating, you will rewrite the text into a specific tone, while preserving the original message. Your final output must only be the translated and toned English text, with no extra commentary.''"

definition convertPrompt :: "string \<Rightarrow> string \<Rightarrow> string" where
  "convertPrompt text tone =
     ''\<newline>    Please translate the following 'Banglish' text into English with a '' @ apos @ tone @ apos @ '' tone.\<newline>''
     @ ''\<newline>''
     @ ''    Original Banglish Text:\<newline>''
     @ ''    ---\<newline>''
     @ ''    '' @ text @ ''\<newline>''
     @ ''    ---\<newline>''
     @ ''  ''"

definition convertBanglishToEnglish :: "gemini \<Rightarrow> string \<Rightarrow> string \<Rightarrow> world \<Rightarrow> string \<times> world" where
  "convertBanglishToEnglish api text tone w =
     callGemini api (convertPrompt text tone) convertSystemInstruction w"

section \<open>Prompt Service (the copy in src/services/geminiService.ts)\<close>

datatype Language = ENGLISH | BANGLISH | BANGLA

fun Language_value :: "Language \<Rightarrow> string" where
  "Language_value ENGLISH = ''English''"
| "Language_value BANGLISH = ''Banglish (Bengali in English letters)''"
| "Language_value BANGLA = ''Bengali (Bangla script)''"

definition services_systemInstruction :: string where
  "services_systemInstruction =
     ''You are a linguistic expert specializing in text transformation. Your task is to rewrite the user's text into a specific tone while preserving the core message and the original language. You are proficient in ''
     @ Language_value ENGLISH @ '', '' @ Language_value BANGLISH @ '', and '' @ Language_value BANGLA
     @ ''. Do not add any extra commentary, just provide the refined text.''"

definition services_refineText :: "gemini \<Rightarrow> string \<Rightarrow> Language \<Rightarrow> string \<Rightarrow> world \<Rightarrow> string \<times> world" where
  "services_refineText api text language tone w =
     (if trim text = [] then ([], w)
      else
        let prompt = refinePrompt text (Language_value language) tone;
            (r, w1) = generateContent api
               \<lparr>model = ''gemini-2.5-flash'', contents = prompt,
                systemInstruction = services_systemInstruction, temperature = 0.8, topP = 0.9\<rparr> w
        in case responseTextTrim r of
             Inr t \<Rightarrow> (t, w1)
           | Inl error \<Rightarrow>
               (let w2 = w1\<lparr>console := console w1 @ [''Error refining text with Gemini API:'']\<rparr>
                in case error of
                     ErrorInstance message \<Rightarrow> (''Error: Failed to refine text. '' @ message, w2)
                   | NonError \<Rightarrow> (''An unknown error occurred while refining text.'', w2)))"

section \<open>Interaction Controller\<close>

text \<open>
  Modelled from the spec: the enum \<^verbatim>\<open>Task\<close> is declared in a types module that is not
  among the sources. Its four members are the ones the Controller names; the strings they
  stand for are unknown and are a parameter (\<open>taskValue\<close>) where the Controller prints one.
\<close>

datatype Task = REFINE_ENGLISH | REFINE_BANGLISH | REFINE_BANGLA | BANGLISH_TO_ENGLISH

datatype Tone = PROFESSIONAL | CASUAL | CRAZY | COOL

fun Tone_value :: "Tone \<Rightarrow> string" where
  "Tone_value PROFESSIONAL = ''Professional''"
| "Tone_value CASUAL = ''Casual''"
| "Tone_value CRAZY = ''Crazy''"
| "Tone_value COOL = ''Cool''"

definition predefinedTones :: "string list" where
  \<comment> \<open>\<^verbatim>\<open>Object.values(Tone)\<close>, in declaration order\<close>
  "predefinedTones = map Tone_value [PROFESSIONAL, CASUAL, CRAZY, COOL]"

definition CUSTOM_TONES_STORAGE_KEY :: string where
  "CUSTOM_TONES_STORAGE_KEY = ''ai-text-refiner-custom-tones''"

fun taskToLanguageMap :: "Task \<Rightarrow> string option" where
  "taskToLanguageMap REFINE_ENGLISH = Some ''English''"
| "taskToLanguageMap REFINE_BANGLISH = Some ''Banglish (Bengali in English letters)''"
| "taskToLanguageMap REFINE_BANGLA = Some ''Bengali (Bangla script)''"
| "taskToLanguageMap BANGLISH_TO_ENGLISH = None"

record app_state =
  inputText :: string
  selectedTask :: Task
  selectedTone :: string
  outputText :: string
  isLoading :: bool
  apiError :: "string option"
  formError :: "string option"
  isCopied :: bool
  customTones :: "string list"
  customToneInput :: string

definition initialState :: app_state where
  "initialState =
     \<lparr>inputText = [], selectedTask = REFINE_ENGLISH, selectedTone = Tone_value PROFESSIONAL,
      outputText = [], isLoading = False, apiError = None, formError = None,
      isCopied = False, customTones = [], customToneInput = []\<rparr>"

definition allTones :: "app_state \<Rightarrow> string list" where
  "allTones s = predefinedTones @ customTones s"

definition showResult :: "string \<Rightarrow> app_state \<Rightarrow> app_state" where
  \<comment> \<open>The tail of \<^verbatim>\<open>handleRefine\<close>, after the service has returned.\<close>
  "showResult result s =
     (let s1 = (if startsWith result ''Error:'' then s\<lparr>apiError := Some result\<rparr>
                else s\<lparr>outputText := result\<rparr>)
      in s1\<lparr>isLoading := False\<rparr>)"

definition handleRefine :: "(Task \<Rightarrow> string) \<Rightarrow> gemini \<Rightarrow> app_state \<Rightarrow> world \<Rightarrow> app_state \<times> world" where
  "handleRefine taskValue api s w =
     (if trim (inputText s) = [] then
        (s\<lparr>apiError := Some ''Please enter some text to process.'', outputText := []\<rparr>, w)
      else
        let s1 = s\<lparr>isLoading := True, apiError := None, outputText := [], isCopied := False\<rparr>
        in if selectedTask s = BANGLISH_TO_ENGLISH then
             (let (result, w1) = convertBanglishToEnglish api (inputText s) (selectedTone s) w
              in (showResult result s1, w1))
           else
             case taskToLanguageMap (selectedTask s) of
               None \<Rightarrow>
                 (s1\<lparr>apiError := Some (''Error: Task '' @ apos @ taskValue (selectedTask s) @ apos
                                          @ '' is not configured correctly.''),
                     isLoading := False\<rparr>, w)
             | Some language \<Rightarrow>
                 (let (result, w1) = refineText api (inputText s) language (selectedTone s) w
                  in (showResult result s1, w1)))"

definition onCustomToneInputChange :: "string \<Rightarrow> app_state \<Rightarrow> app_state" where
  \<comment> \<open>The \<^verbatim>\<open>onChange\<close> of the custom-tone field; a form error is cleared when truthy.\<close>
  "onCustomToneInputChange v s =
     (let s1 = s\<lparr>customToneInput := v\<rparr>
      in case formError s of
           None \<Rightarrow> s1
         | Some e \<Rightarrow> if e = [] then s1 else s1\<lparr>formError := None\<rparr>)"

definition handleAddCustomTone :: "app_state \<Rightarrow> app_state" where
  "handleAddCustomTone s =
     (let newTone = trim (customToneInput s)
      in if newTone = [] then s\<lparr>formError := Some ''Custom tone cannot be empty.''\<rparr>
         else if list_ex (\<lambda>t. toLowerCase t = toLowerCase newTone) (allTones s)
         then s\<lparr>formError := Some ''This tone already exists.''\<rparr>
         else s\<lparr>customTones := customTones s @ [newTone], customToneInput := [],
                formError := None\<rparr>)"

definition handleRemoveCustomTone :: "string \<Rightarrow> app_state \<Rightarrow> app_state" where
  "handleRemoveCustomTone toneToRemove s =
     (let s1 = s\<lparr>customTones := filter (\<lambda>t. t \<noteq> toneToRemove) (customTones s)\<rparr>
      in if selectedTone s = toneToRemove then s1\<lparr>selectedTone := Tone_value PROFESSIONAL\<rparr>
         else s1)"

section \<open>The durable store and JSON\<close>

text \<open>
  \<^verbatim>\<open>JSON.stringify\<close> on an array of strings and \<^verbatim>\<open>JSON.parse\<close> are built-ins of the
  runtime. \<open>JSON_stringify\<close> follows QuoteJSONString of ECMA-262 (no indentation argument);
  \<open>JSON_parse\<close> reads the JSON texts that are arrays of strings and is \<open>None\<close> on every
  other text (a syntax error, another JSON value, or an escape beyond code unit 255).
  The effect that loads the stored list at startup passes whatever \<^verbatim>\<open>JSON.parse\<close> returns to
  the state; it is not part of this development, which reads back only the texts that the
  saving effect writes.
\<close>

definition hexDigit :: "nat \<Rightarrow> char" where
  "hexDigit n = ''0123456789abcdef'' ! (n mod 16)"

definition quoteJSONChar :: "char \<Rightarrow> string" where
  "quoteJSONChar c =
     (if c = CHR 0x08 then [CHR 0x5C, CHR ''b'']
      else if c = CHR 0x09 then [CHR 0x5C, CHR ''t'']
      else if c = CHR 0x0A then [CHR 0x5C, CHR ''n'']
      else if c = CHR 0x0C then [CHR 0x5C, CHR ''f'']
      else if c = CHR 0x0D then [CHR 0x5C, CHR ''r'']
      else if c = CHR 0x22 then [CHR 0x5C, CHR 0x22]
      else if c = CHR 0x5C then [CHR 0x5C, CHR 0x5C]
      else if (of_char c :: nat) < 32
      then [CHR 0x5C, CHR ''u'', CHR ''0'', CHR ''0'',
            hexDigit ((of_char c :: nat) div 16), hexDigit ((of_char c :: nat) mod 16)]
      else [c])"

definition quoteJSONString :: "string \<Rightarrow> string" where
  "quoteJSONString s = [CHR 0x22] @ concat (map quoteJSONChar s) @ [CHR 0x22]"

fun joinWith :: "string \<Rightarrow> string list \<Rightarrow> string" where
  "joinWith sep [] = []"
| "joinWith sep [x] = x"
| "joinWith sep (x # y # ys) = x @ sep @ joinWith sep (y # ys)"

definition JSON_stringify :: "string list \<Rightarrow> string" where
  "JSON_stringify xs = ''['' @ joinWith '','' (map quoteJSONString xs) @ '']''"

definition hexValue :: "char \<Rightarrow> nat option" where
  "hexValue c =
     (let n = (of_char c :: nat)
      in if 48 \<le> n \<and> n \<le> 57 then Some (n - 48)
         else if 97 \<le> n \<and> n \<le> 102 then Some (n - 87)
         else if 65 \<le> n \<and> n \<le> 70 then Some (n - 55)
         else None)"

definition hex4 :: "char \<Rightarrow> char \<Rightarrow> char \<Rightarrow> char \<Rightarrow> nat option" where
  "hex4 a b c d =
     (case (hexValue a, hexValue b, hexValue c, hexValue d) of
        (Some x, Some y, Some z, Some u) \<Rightarrow> Some (((x * 16 + y) * 16 + z) * 16 + u)
      | _ \<Rightarrow> None)"

definition unescape :: "char \<Rightarrow> char option" where
  "unescape e =
     (if e = CHR 0x22 then Some (CHR 0x22)
      else if e = CHR 0x5C then Some (CHR 0x5C)
      else if e = CHR ''/'' then Some (CHR ''/'')
      else if e = CHR ''b'' then Some (CHR 0x08)
      else if e = CHR ''f'' then Some (CHR 0x0C)
      else if e = CHR ''n'' then Some (CHR 0x0A)
      else if e = CHR ''r'' then Some (CHR 0x0D)
      else if e = CHR ''t'' then Some (CHR 0x09)
      else None)"

definition consChar :: "char \<Rightarrow> (string \<times> string) option \<Rightarrow> (string \<times> string) option" where
  "consChar c r = (case r of None \<Rightarrow> None | Some (str, rest) \<Rightarrow> Some (c # str, rest))"

fun parseChars :: "string \<Rightarrow> (string \<times> string) option" where
  "parseChars [] = None"
| "parseChars (c # cs) =
     (if c = CHR 0x22 then Some ([], cs)
      else if c = CHR 0x5C then
        (case cs of
           [] \<Rightarrow> None
         | e # cs1 \<Rightarrow>
             if e = CHR ''u'' then
               (case cs1 of
                  h1 # h2 # h3 # h4 # cs2 \<Rightarrow>
                    (case hex4 h1 h2 h3 h4 of
                       None \<Rightarrow> None
                     | Some n \<Rightarrow> if n < 256 then consChar (char_of n) (parseChars cs2) else None)
                | _ \<Rightarrow> None)
             else
               (case unescape e of
                  None \<Rightarrow> None
                | Some d \<Rightarrow> consChar d (parseChars cs1)))
      else if (of_char c :: nat) < 32 then None
      else consChar c (parseChars cs))"

definition isJSONWhiteSpace :: "char \<Rightarrow> bool" where
  "isJSONWhiteSpace c = (c \<in> set [CHR 0x09, CHR 0x0A, CHR 0x0D, CHR 0x20])"

function parseElements :: "string \<Rightarrow> (string list \<times> string) option" where
  "parseElements s =
     (case dropWhile isJSONWhiteSpace s of
        [] \<Rightarrow> None
      | c # cs \<Rightarrow>
          if c \<noteq> CHR 0x22 then None
          else
            (case parseChars cs of
               None \<Rightarrow> None
             | Some (str, rest) \<Rightarrow>
                 (case dropWhile isJSONWhiteSpace rest of
                    [] \<Rightarrow> None
                  | d # rest1 \<Rightarrow>
                      if d = CHR '','' then
                        (case parseElements rest1 of
                           None \<Rightarrow> None
                         | Some (xs, r) \<Rightarrow> Some (str # xs, r))
                      else if d = CHR '']'' then Some ([str], rest1)
                      else None)))"
  by pat_completeness auto
termination
proof (relation "measure length")
  show "wf (measure length)" by simp
next
  fix s :: string and c cs x2 str rest d rest1
  assume a: "dropWhile isJSONWhiteSpace s = c # cs" "parseChars cs = Some x2"
    "(str, rest) = x2" "dropWhile isJSONWhiteSpace rest = d # rest1"
  have shorter: "length r < length ds" if "parseChars ds = Some (t, r)" for ds t r
    using that
  proof (induction "length ds" arbitrary: ds t r rule: less_induct)
    case less
    show ?case
    proof (cases ds)
      case Nil
      with less.prems show ?thesis by simp
    next
      case (Cons e es)
      have IH: "\<And>fs u v. length fs < length ds \<Longrightarrow> parseChars fs = Some (u, v) \<Longrightarrow> length v < length fs"
        using less.hyps by blast
      show ?thesis
        using less.prems Cons IH[of es]
        apply (simp add: consChar_def split: if_splits list.splits option.splits)
         apply (auto dest!: IH[rotated] simp: less_Suc_eq)
        done
    qed
  qed
  have "length rest1 < length (dropWhile isJSONWhiteSpace rest)" using a(4) by simp
  also have "\<dots> \<le> length rest" by (rule length_dropWhile_le)
  also have "\<dots> < length cs" using shorter[of cs str rest] a(2,3) by simp
  also have "\<dots> < length (dropWhile isJSONWhiteSpace s)" using a(1) by simp
  also have "\<dots> \<le> length s" by (rule length_dropWhile_le)
  finally show "(rest1, s) \<in> measure length" by simp
qed

definition JSON_parse :: "string \<Rightarrow> string list option" where
  "JSON_parse s =
     (case dropWhile isJSONWhiteSpace s of
        [] \<Rightarrow> None
      | c # cs \<Rightarrow>
          if c \<noteq> CHR ''['' then None
          else
            (case dropWhile isJSONWhiteSpace cs of
               [] \<Rightarrow> None
             | d # ds \<Rightarrow>
                 if d = CHR '']'' then (if dropWhile isJSONWhiteSpace ds = [] then Some [] else None)
                 else
                   (case parseElements cs of
                      None \<Rightarrow> None
                    | Some (xs, rest) \<Rightarrow>
                        if dropWhile isJSONWhiteSpace rest = [] then Some xs else None)))"


definition setItem :: "(string \<Rightarrow> string \<Rightarrow> bool) \<Rightarrow> string \<Rightarrow> string \<Rightarrow> world \<Rightarrow> world option" where
  \<comment> \<open>\<^verbatim>\<open>localStorage.setItem\<close>: the store takes the write or throws (\<open>None\<close>); which of the
      two is the environment's choice, the parameter \<open>accepts\<close>.\<close>
  "setItem accepts key v w =
     (if accepts key v then Some (w\<lparr>localStorage := (localStorage w)(key \<mapsto> v)\<rparr>) else None)"

definition saveCustomTones :: "(string \<Rightarrow> string \<Rightarrow> bool) \<Rightarrow> app_state \<Rightarrow> world \<Rightarrow> app_state \<times> world" where
  \<comment> \<open>The effect that depends on \<^verbatim>\<open>customTones\<close>.\<close>
  "saveCustomTones accepts s w =
     (case setItem accepts CUSTOM_TONES_STORAGE_KEY (JSON_stringify (customTones s)) w of
        Some w1 \<Rightarrow> (s, w1)
      | None \<Rightarrow>
          (s\<lparr>formError := Some ''Could not save custom tones.''\<rparr>,
           w\<lparr>console := console w @ [''Failed to save custom tones to localStorage'']\<rparr>))"

text \<open>
  A user operation on the tone list, followed by the effects it triggers. The saving effect
  runs after a render in which \<^verbatim>\<open>customTones\<close> is a new array: after every removal
  (\<^verbatim>\<open>filter\<close> builds a new array) and after an accepted addition.
\<close>

datatype tone_op = AddTone string | RemoveTone string

definition performOp :: "(string \<Rightarrow> string \<Rightarrow> bool) \<Rightarrow> tone_op \<Rightarrow> app_state \<Rightarrow> world \<Rightarrow> app_state \<times> world" where
  "performOp accepts op s w =
     (case op of
        AddTone v \<Rightarrow>
          (let s1 = onCustomToneInputChange v s;
               s2 = handleAddCustomTone s1
           in if customTones s2 = customTones s1 then (s2, w) else saveCustomTones accepts s2 w)
      | RemoveTone t \<Rightarrow> saveCustomTones accepts (handleRemoveCustomTone t s) w)"

fun performOps :: "(string \<Rightarrow> string \<Rightarrow> bool) \<Rightarrow> tone_op list \<Rightarrow> app_state \<Rightarrow> world \<Rightarrow> app_state \<times> world" where
  "performOps accepts [] s w = (s, w)"
| "performOps accepts (op # ops) s w =
     (let (s1, w1) = performOp accepts op s w in performOps accepts ops s1 w1)"

subsection \<open>The operations replayed on an in-memory list (from the specification's words)\<close>

definition addToList :: "string \<Rightarrow> string list \<Rightarrow> string list" where
  \<comment> \<open>trims; rejects empty input and case-insensitive duplicates against predefined and
      custom tones; otherwise appends\<close>
  "addToList v xs =
     (let t = trim v
      in if t = [] \<or> toLowerCase t \<in> set (map toLowerCase (predefinedTones @ xs)) then xs
         else xs @ [t])"

fun replay :: "tone_op list \<Rightarrow> string list \<Rightarrow> string list" where
  "replay [] xs = xs"
| "replay (AddTone v # ops) xs = replay ops (addToList v xs)"
| "replay (RemoveTone t # ops) xs = replay ops (removeAll t xs)"

section \<open>Concrete collaborators for the examples\<close>

definition world0 :: world where
  "world0 = \<lparr>api_calls = [], console = [], localStorage = Map.empty\<rparr>"

definition api_replies :: "string \<Rightarrow> gemini" where
  "api_replies t req = Response (Some t)"

definition api_rejects :: "thrown \<Rightarrow> gemini" where
  "api_rejects e req = Rejects e"

definition taskName :: "Task \<Rightarrow> string" where
  "taskName t = ''task''"

definition alwaysAccepts :: "string \<Rightarrow> string \<Rightarrow> bool" where
  "alwaysAccepts key v = True"

definition neverAccepts :: "string \<Rightarrow> string \<Rightarrow> bool" where
  "neverAccepts key v = False"

section \<open>Trimming, and the calls the Prompt Service makes\<close>

lemma trim_Nil_iff: "trim s = [] \<longleftrightarrow> list_all isWhiteSpace s"
proof
  assume "trim s = []"
  then have all: "\<forall>x\<in>set (dropWhile isWhiteSpace s). isWhiteSpace x"
    by (simp add: trim_def)
  have "dropWhile isWhiteSpace s = []"
  proof (rule ccontr)
    assume ne: "dropWhile isWhiteSpace s \<noteq> []"
    then have "\<not> isWhiteSpace (hd (dropWhile isWhiteSpace s))" by (rule hd_dropWhile)
    moreover have "hd (dropWhile isWhiteSpace s) \<in> set (dropWhile isWhiteSpace s)"
      using ne by (rule hd_in_set)
    ultimately show False using all by blast
  qed
  then show "list_all isWhiteSpace s"
    by (simp add: list_all_iff)
next
  assume "list_all isWhiteSpace s"
  then have "dropWhile isWhiteSpace s = []"
    by (simp add: list_all_iff)
  then show "trim s = []"
    by (simp only: trim_def rev.simps dropWhile.simps)
qed

lemma not_blank_append: "\<not> list_all isWhiteSpace xs \<Longrightarrow> trim (xs @ ys) \<noteq> []"
  by (simp add: trim_Nil_iff)

lemma refinePrompt_not_blank: "trim (refinePrompt text language tone) \<noteq> []"
  by (simp add: trim_Nil_iff refinePrompt_def isWhiteSpace_def)

lemma convertPrompt_not_blank: "trim (convertPrompt text tone) \<noteq> []"
  by (simp add: trim_Nil_iff convertPrompt_def isWhiteSpace_def)

lemma callGemini_calls:
  "trim prompt \<noteq> [] \<Longrightarrow>
   api_calls (snd (callGemini api prompt sysInstr w)) =
     api_calls w @ [\<lparr>model = ''gemini-2.5-flash'', contents = prompt,
                      systemInstruction = sysInstr, temperature = 0.8, topP = 0.9\<rparr>]"
  by (simp add: callGemini_def generateContent_def responseTextTrim_def Let_def
        split: outcome.split option.split thrown.split sum.split)

lemma services_refineText_calls:
  "trim text \<noteq> [] \<Longrightarrow>
   api_calls (snd (services_refineText api text language tone w)) =
     api_calls w @ [\<lparr>model = ''gemini-2.5-flash'',
                      contents = refinePrompt text (Language_value language) tone,
                      systemInstruction = services_systemInstruction,
                      temperature = 0.8, topP = 0.9\<rparr>]"
  by (simp add: services_refineText_def generateContent_def responseTextTrim_def Let_def
        split: outcome.split option.split thrown.split sum.split)

lemma services_refineText_blank:
  "trim text = [] \<Longrightarrow> services_refineText api text language tone w = ([], w)"
  by (simp add: services_refineText_def)

lemma callGemini_rejects_Error:
  "trim prompt \<noteq> [] \<Longrightarrow> api \<lparr>model = ''gemini-2.5-flash'', contents = prompt,
                      systemInstruction = sysInstr, temperature = 0.8, topP = 0.9\<rparr> = Rejects (ErrorInstance m) \<Longrightarrow>
   fst (callGemini api prompt sysInstr w) = ''Error: Failed to process text. '' @ m"
  by (simp add: callGemini_def generateContent_def responseTextTrim_def)

lemma callGemini_replies:
  "trim prompt \<noteq> [] \<Longrightarrow> api \<lparr>model = ''gemini-2.5-flash'', contents = prompt,
                      systemInstruction = sysInstr, temperature = 0.8, topP = 0.9\<rparr> = Response (Some t) \<Longrightarrow>
   fst (callGemini api prompt sysInstr w) = trim t"
  by (simp add: callGemini_def generateContent_def responseTextTrim_def)

lemma trim_example_reply: "trim ''Sure! Here you go.'' = ''Sure! Here you go.''"
  by (simp add: trim_def isWhiteSpace_def)

section \<open>The Prompt Service on blank input\<close>

text \<open>
  C1. The claim: for an empty or whitespace-only input text, \<^verbatim>\<open>refineText\<close> and
  \<^verbatim>\<open>convertBanglishToEnglish\<close> return the empty string and make no call to the generation
  API. The service the Controller uses tests the prompt, not the text, and the prompt always
  holds the words of the template: on the text of three spaces \<^verbatim>\<open>refineText\<close> makes one call
  and returns the reply, and so does \<^verbatim>\<open>convertBanglishToEnglish\<close> on the empty text.
\<close>

theorem refineText_blank_text_calls_api:
  "fst (refineText (api_replies ''Sure! Here you go.'') ''   '' ''English'' ''Casual'' world0)
     = ''Sure! Here you go.''
   \<and> length (api_calls (snd (refineText (api_replies ''Sure! Here you go.'') ''   '' ''English'' ''Casual'' world0))) = 1
   \<and> fst (convertBanglishToEnglish (api_replies ''Sure! Here you go.'') [] ''Casual'' world0)
     = ''Sure! Here you go.''
   \<and> length (api_calls (snd (convertBanglishToEnglish (api_replies ''Sure! Here you go.'') [] ''Casual'' world0))) = 1"
  by (simp add: refineText_def convertBanglishToEnglish_def callGemini_def refinePrompt_not_blank
      convertPrompt_not_blank generateContent_def responseTextTrim_def api_replies_def world0_def
      trim_example_reply)

section \<open>Faults of the external call\<close>

lemma callGemini_rejects_NonError:
  "trim prompt \<noteq> [] \<Longrightarrow> api \<lparr>model = ''gemini-2.5-flash'', contents = prompt,
                      systemInstruction = sysInstr, temperature = 0.8, topP = 0.9\<rparr> = Rejects NonError \<Longrightarrow>
   fst (callGemini api prompt sysInstr w) = ''An unknown error occurred while processing text.''"
  by (simp add: callGemini_def generateContent_def responseTextTrim_def)

lemma handleRefine_convert:
  "trim (inputText s) \<noteq> [] \<Longrightarrow> selectedTask s = BANGLISH_TO_ENGLISH \<Longrightarrow>
   fst (handleRefine taskValue api s w) =
     showResult (fst (convertBanglishToEnglish api (inputText s) (selectedTone s) w))
       (s\<lparr>isLoading := True, apiError := None, outputText := [], isCopied := False\<rparr>)"
  by (simp add: handleRefine_def Let_def split_beta)

lemma handleRefine_refine:
  "trim (inputText s) \<noteq> [] \<Longrightarrow> taskToLanguageMap (selectedTask s) = Some language \<Longrightarrow>
   fst (handleRefine taskValue api s w) =
     showResult (fst (refineText api (inputText s) language (selectedTone s) w))
       (s\<lparr>isLoading := True, apiError := None, outputText := [], isCopied := False\<rparr>)"
  by (cases "selectedTask s") (simp_all add: handleRefine_def Let_def split_beta)

lemma taskToLanguageMap_cases:
  "t = BANGLISH_TO_ENGLISH \<or> (\<exists>language. taskToLanguageMap t = Some language)"
  by (cases t) simp_all

lemma trim_hello: "trim ''hello'' \<noteq> []"
  by (simp add: trim_Nil_iff isWhiteSpace_def)

text \<open>
  C2. The claim: whenever the external call raises a fault, the operation returns a string
  that begins with the marker \<^verbatim>\<open>Error:\<close>, and nothing propagates to the caller. Nothing
  propagates (the operations are total), but a thrown value that is not an instance of
  \<^verbatim>\<open>Error\<close> is answered with a message that lacks the marker, and the Controller, which
  tells errors by this marker, then shows that message as the output.
\<close>

theorem unknown_error_lacks_marker:
  "fst (refineText (api_rejects NonError) ''hello'' ''English'' ''Professional'' world0)
     = ''An unknown error occurred while processing text.''
   \<and> \<not> startsWith (fst (refineText (api_rejects NonError) ''hello'' ''English'' ''Professional'' world0)) ''Error:''
   \<and> fst (services_refineText (api_rejects NonError) ''hello'' ENGLISH ''Professional'' world0)
     = ''An unknown error occurred while refining text.''
   \<and> apiError (fst (handleRefine taskName (api_rejects NonError)
         (initialState\<lparr>inputText := ''hello''\<rparr>) world0)) = None
   \<and> outputText (fst (handleRefine taskName (api_rejects NonError)
         (initialState\<lparr>inputText := ''hello''\<rparr>) world0))
     = ''An unknown error occurred while processing text.''"
proof -
  have r: "fst (refineText (api_rejects NonError) ''hello'' ''English'' ''Professional'' world0)
      = ''An unknown error occurred while processing text.''"
    unfolding refineText_def
    by (rule callGemini_rejects_NonError[OF refinePrompt_not_blank]) (simp add: api_rejects_def)
  have s: "fst (services_refineText (api_rejects NonError) ''hello'' ENGLISH ''Professional'' world0)
     = ''An unknown error occurred while refining text.''"
    by (simp add: services_refineText_def trim_hello generateContent_def responseTextTrim_def
        api_rejects_def Let_def)
  have m: "\<not> startsWith ''An unknown error occurred while processing text.'' ''Error:''"
    by (simp add: startsWith_def)
  have h: "fst (handleRefine taskName (api_rejects NonError) (initialState\<lparr>inputText := ''hello''\<rparr>) world0)
     = showResult ''An unknown error occurred while processing text.''
         ((initialState\<lparr>inputText := ''hello''\<rparr>)\<lparr>isLoading := True, apiError := None, outputText := [], isCopied := False\<rparr>)"
    using handleRefine_refine[of "initialState\<lparr>inputText := ''hello''\<rparr>" "''English''"
        taskName "api_rejects NonError" world0] trim_hello r
    by (simp add: initialState_def)
  have a: "apiError (fst (handleRefine taskName (api_rejects NonError)
         (initialState\<lparr>inputText := ''hello''\<rparr>) world0)) = None"
    by (simp only: h) (simp add: showResult_def m initialState_def)
  have b: "outputText (fst (handleRefine taskName (api_rejects NonError)
         (initialState\<lparr>inputText := ''hello''\<rparr>) world0))
     = ''An unknown error occurred while processing text.''"
    by (simp only: h) (simp add: showResult_def m initialState_def)
  show ?thesis
    using r s m a b by simp
qed

text \<open>
  C3. When the external call raises an \<^verbatim>\<open>Error\<close> with the message \<^verbatim>\<open>quota exceeded\<close>,
  the service returns \<^verbatim>\<open>Error: Failed to process text. quota exceeded\<close> (the copy in
  src/services: \<^verbatim>\<open>Error: Failed to refine text. quota exceeded\<close>), and the Controller
  stores the string in the API-error state and leaves the output empty.
\<close>

theorem quota_exceeded_shown_as_api_error:
  assumes quota: "\<And>req. api req = Rejects (ErrorInstance ''quota exceeded'')"
    and nonblank: "trim text \<noteq> []" and input: "trim (inputText s) \<noteq> []"
  shows "fst (refineText api text language tone w) = ''Error: Failed to process text. quota exceeded''
    \<and> fst (convertBanglishToEnglish api text tone w) = ''Error: Failed to process text. quota exceeded''
    \<and> fst (services_refineText api text lang tone w) = ''Error: Failed to refine text. quota exceeded''
    \<and> apiError (fst (handleRefine taskValue api s w)) = Some ''Error: Failed to process text. quota exceeded''
    \<and> outputText (fst (handleRefine taskValue api s w)) = []"
proof -
  have r: "fst (refineText api t l n w) = ''Error: Failed to process text. quota exceeded''" for t l n
    using callGemini_rejects_Error[OF refinePrompt_not_blank quota]
    by (simp add: refineText_def)
  have c: "fst (convertBanglishToEnglish api t n w) = ''Error: Failed to process text. quota exceeded''" for t n
    using callGemini_rejects_Error[OF convertPrompt_not_blank quota]
    by (simp add: convertBanglishToEnglish_def)
  have v: "fst (services_refineText api text lang tone w) = ''Error: Failed to refine text. quota exceeded''"
    using nonblank by (simp add: services_refineText_def generateContent_def responseTextTrim_def quota Let_def)
  have sw: "startsWith ''Error: Failed to process text. quota exceeded'' ''Error:''"
    by (simp add: startsWith_def)
  have "fst (handleRefine taskValue api s w) =
      showResult ''Error: Failed to process text. quota exceeded''
        (s\<lparr>isLoading := True, apiError := None, outputText := [], isCopied := False\<rparr>)"
    using taskToLanguageMap_cases[of "selectedTask s"]
  proof
    assume "selectedTask s = BANGLISH_TO_ENGLISH"
    then show ?thesis using handleRefine_convert[OF input] c by simp
  next
    assume "\<exists>language. taskToLanguageMap (selectedTask s) = Some language"
    then obtain l where "taskToLanguageMap (selectedTask s) = Some l" ..
    then show ?thesis using handleRefine_refine[OF input] r by simp
  qed
  then have h: "apiError (fst (handleRefine taskValue api s w)) = Some ''Error: Failed to process text. quota exceeded''
      \<and> outputText (fst (handleRefine taskValue api s w)) = []"
    by (simp add: showResult_def sw)
  show ?thesis
    using r c v h by simp
qed

theorem quota_exceeded_witness:
  "fst (refineText (api_rejects (ErrorInstance ''quota exceeded'')) ''hello'' ''English'' ''Casual'' world0)
      = ''Error: Failed to process text. quota exceeded''
   \<and> fst (convertBanglishToEnglish (api_rejects (ErrorInstance ''quota exceeded'')) ''hello'' ''Casual'' world0)
      = ''Error: Failed to process text. quota exceeded''
   \<and> fst (services_refineText (api_rejects (ErrorInstance ''quota exceeded'')) ''hello'' ENGLISH ''Casual'' world0)
      = ''Error: Failed to refine text. quota exceeded''
   \<and> apiError (fst (handleRefine taskName (api_rejects (ErrorInstance ''quota exceeded''))
        (initialState\<lparr>inputText := ''hello''\<rparr>) world0))
      = Some ''Error: Failed to process text. quota exceeded''
   \<and> outputText (fst (handleRefine taskName (api_rejects (ErrorInstance ''quota exceeded''))
        (initialState\<lparr>inputText := ''hello''\<rparr>) world0)) = []"
proof -
  have q: "\<And>req. api_rejects (ErrorInstance ''quota exceeded'') req = Rejects (ErrorInstance ''quota exceeded'')"
    by (simp add: api_rejects_def)
  have i: "trim (inputText (initialState\<lparr>inputText := ''hello''\<rparr>)) \<noteq> []"
    using trim_hello by simp
  show ?thesis
    by (rule quota_exceeded_shown_as_api_error[OF q trim_hello i])
qed

section \<open>One call, with fixed parameters\<close>

text \<open>
  C4. For every non-empty input text, that is every text that is neither empty nor made of
  whitespace only, each operation of the Prompt Service makes exactly one call to the
  generation API, with the model \<^verbatim>\<open>gemini-2.5-flash\<close>, temperature 0.8 and top-p 0.9.
\<close>

theorem one_call_with_fixed_parameters:
  assumes nonblank: "trim text \<noteq> []"
  shows "api_calls (snd (refineText api text language tone w)) =
           api_calls w @ [\<lparr>model = ''gemini-2.5-flash'', contents = refinePrompt text language tone,
                            systemInstruction = refineSystemInstruction, temperature = 0.8, topP = 0.9\<rparr>]
       \<and> api_calls (snd (convertBanglishToEnglish api text tone w)) =
           api_calls w @ [\<lparr>model = ''gemini-2.5-flash'', contents = convertPrompt text tone,
                            systemInstruction = convertSystemInstruction, temperature = 0.8, topP = 0.9\<rparr>]
       \<and> api_calls (snd (services_refineText api text lang tone w)) =
           api_calls w @ [\<lparr>model = ''gemini-2.5-flash'',
                            contents = refinePrompt text (Language_value lang) tone,
                            systemInstruction = services_systemInstruction,
                            temperature = 0.8, topP = 0.9\<rparr>]"
  unfolding refineText_def convertBanglishToEnglish_def
  using callGemini_calls[OF refinePrompt_not_blank] callGemini_calls[OF convertPrompt_not_blank]
    services_refineText_calls[OF nonblank]
  by simp

theorem one_call_with_fixed_parameters_witness:
  "api_calls (snd (refineText (api_replies ''Sure! Here you go.'') ''hello'' ''English'' ''Casual'' world0)) =
           [\<lparr>model = ''gemini-2.5-flash'', contents = refinePrompt ''hello'' ''English'' ''Casual'',
                            systemInstruction = refineSystemInstruction, temperature = 0.8, topP = 0.9\<rparr>]
       \<and> api_calls (snd (convertBanglishToEnglish (api_replies ''Sure! Here you go.'') ''hello'' ''Casual'' world0)) =
           [\<lparr>model = ''gemini-2.5-flash'', contents = convertPrompt ''hello'' ''Casual'',
                            systemInstruction = convertSystemInstruction, temperature = 0.8, topP = 0.9\<rparr>]
       \<and> api_calls (snd (services_refineText (api_replies ''Sure! Here you go.'') ''hello'' ENGLISH ''Casual'' world0)) =
           [\<lparr>model = ''gemini-2.5-flash'',
                            contents = refinePrompt ''hello'' ''English'' ''Casual'',
                            systemInstruction = services_systemInstruction,
                            temperature = 0.8, topP = 0.9\<rparr>]"
  using one_call_with_fixed_parameters[OF trim_hello, of "api_replies ''Sure! Here you go.''"
      "''English''" "''Casual''" world0 ENGLISH]
  by (simp add: world0_def)

lemma refinePrompt_contains_text: "sublist text (refinePrompt text language tone)"
proof -
  have "\<exists>ps ss. refinePrompt text language tone = ps @ text @ ss"
    unfolding refinePrompt_def
    by (metis append.assoc)
  then show ?thesis by (simp add: sublist_def)
qed

lemma refinePrompt_contains_tone: "sublist tone (refinePrompt text language tone)"
proof -
  have "\<exists>ps ss. refinePrompt text language tone = ps @ tone @ ss"
    unfolding refinePrompt_def
    by (metis append.assoc)
  then show ?thesis by (simp add: sublist_def)
qed

lemma trim_example_padded: "trim ''  Hey, you!\<newline>'' = ''Hey, you!''"
  by (simp add: trim_def isWhiteSpace_def)

text \<open>
  C8. For the input text \<^verbatim>\<open>hello there\<close>, the task refine-as-English and the tone
  \<^verbatim>\<open>Casual\<close>: exactly one API call is made, its prompt contains \<^verbatim>\<open>hello there\<close> and
  \<^verbatim>\<open>Casual\<close>, and the value returned is the response text, trimmed.
\<close>

theorem hello_there_casual_scenario:
  assumes reply: "api \<lparr>model = ''gemini-2.5-flash'',
                        contents = refinePrompt ''hello there'' ''English'' ''Casual'',
                        systemInstruction = refineSystemInstruction,
                        temperature = 0.8, topP = 0.9\<rparr> = Response (Some reply)"
  shows "taskToLanguageMap REFINE_ENGLISH = Some ''English''
     \<and> fst (refineText api ''hello there'' ''English'' ''Casual'' w) = trim reply
     \<and> api_calls (snd (refineText api ''hello there'' ''English'' ''Casual'' w)) =
         api_calls w @ [\<lparr>model = ''gemini-2.5-flash'',
                          contents = refinePrompt ''hello there'' ''English'' ''Casual'',
                          systemInstruction = refineSystemInstruction,
                          temperature = 0.8, topP = 0.9\<rparr>]
     \<and> sublist ''hello there'' (refinePrompt ''hello there'' ''English'' ''Casual'')
     \<and> sublist ''Casual'' (refinePrompt ''hello there'' ''English'' ''Casual'')"
  unfolding refineText_def
  using callGemini_replies[where api=api, OF refinePrompt_not_blank reply]
    callGemini_calls[OF refinePrompt_not_blank]
    refinePrompt_contains_text refinePrompt_contains_tone
  by simp

theorem hello_there_casual_scenario_witness:
  "fst (refineText (api_replies ''  Hey, you!\<newline>'') ''hello there'' ''English'' ''Casual'' world0) = ''Hey, you!''
   \<and> length (api_calls (snd (refineText (api_replies ''  Hey, you!\<newline>'') ''hello there'' ''English'' ''Casual'' world0))) = 1
   \<and> sublist ''hello there'' (refinePrompt ''hello there'' ''English'' ''Casual'')
   \<and> sublist ''Casual'' (refinePrompt ''hello there'' ''English'' ''Casual'')"
proof -
  have "api_replies ''  Hey, you!\<newline>'' \<lparr>model = ''gemini-2.5-flash'',
                        contents = refinePrompt ''hello there'' ''English'' ''Casual'',
                        systemInstruction = refineSystemInstruction,
                        temperature = 0.8, topP = 0.9\<rparr> = Response (Some ''  Hey, you!\<newline>'')"
    by (simp add: api_replies_def)
  from hello_there_casual_scenario[where api="api_replies ''  Hey, you!\<newline>''" and w=world0, OF this]
  show ?thesis
    by (simp add: trim_example_padded world0_def)
qed

section \<open>Custom tones\<close>

lemma toLowerCase_examples:
  "toLowerCase ''CASUAL'' = ''casual''" "toLowerCase ''Casual'' = ''casual''"
  "toLowerCase ''Professional'' = ''professional''" "toLowerCase ''Crazy'' = ''crazy''"
  "toLowerCase ''Cool'' = ''cool''" "toLowerCase ''Friendly'' = ''friendly''"
  "toLowerCase ''friendly'' = ''friendly''" "toLowerCase ''Bold'' = ''bold''"
  by (simp_all add: toLowerCase_def toLowerChar_def char_of_def bit_iff_odd)

lemma trim_examples:
  "trim ''   '' = []" "trim '' CASUAL '' = ''CASUAL''" "trim '' Friendly '' = ''Friendly''"
  "trim ''friendly'' = ''friendly''" "trim ''Bold'' = ''Bold''"
  by (simp_all add: trim_def isWhiteSpace_def)

text \<open>
  C5. Adding a custom tone trims the pending input. An empty trimmed input sets the form error
  \<^verbatim>\<open>Custom tone cannot be empty.\<close> and changes nothing else; a trimmed input equal, up to
  case, to a predefined or custom tone sets a form error and changes nothing else; any other
  input is appended, trimmed, to the custom tones, and the input field is cleared.
\<close>

theorem handleAddCustomTone_cases:
  "(trim (customToneInput s) = [] \<longrightarrow>
      handleAddCustomTone s = s\<lparr>formError := Some ''Custom tone cannot be empty.''\<rparr>
      \<and> customTones (handleAddCustomTone s) = customTones s)
   \<and> (trim (customToneInput s) \<noteq> []
        \<and> (\<exists>t \<in> set (predefinedTones @ customTones s).
              toLowerCase t = toLowerCase (trim (customToneInput s))) \<longrightarrow>
      handleAddCustomTone s = s\<lparr>formError := Some ''This tone already exists.''\<rparr>
      \<and> customTones (handleAddCustomTone s) = customTones s)
   \<and> (trim (customToneInput s) \<noteq> []
        \<and> (\<forall>t \<in> set (predefinedTones @ customTones s).
              toLowerCase t \<noteq> toLowerCase (trim (customToneInput s))) \<longrightarrow>
      customTones (handleAddCustomTone s) = customTones s @ [trim (customToneInput s)]
      \<and> customToneInput (handleAddCustomTone s) = []
      \<and> formError (handleAddCustomTone s) = None)"
  by (simp add: handleAddCustomTone_def allTones_def Let_def list_ex_iff)

theorem handleAddCustomTone_cases_witness:
  "handleAddCustomTone (initialState\<lparr>customToneInput := ''   ''\<rparr>)
     = initialState\<lparr>customToneInput := ''   '', formError := Some ''Custom tone cannot be empty.''\<rparr>
   \<and> handleAddCustomTone (initialState\<lparr>customToneInput := '' CASUAL ''\<rparr>)
     = initialState\<lparr>customToneInput := '' CASUAL '', formError := Some ''This tone already exists.''\<rparr>
   \<and> customTones (handleAddCustomTone (initialState\<lparr>customToneInput := '' Friendly ''\<rparr>)) = [''Friendly'']
   \<and> customToneInput (handleAddCustomTone (initialState\<lparr>customToneInput := '' Friendly ''\<rparr>)) = []"
  using handleAddCustomTone_cases[of "initialState\<lparr>customToneInput := ''   ''\<rparr>"]
    handleAddCustomTone_cases[of "initialState\<lparr>customToneInput := '' CASUAL ''\<rparr>"]
    handleAddCustomTone_cases[of "initialState\<lparr>customToneInput := '' Friendly ''\<rparr>"]
  by (simp add: initialState_def predefinedTones_def trim_examples toLowerCase_examples)

text \<open>
  C6. In every state, removing a custom tone removes the named tone from the custom-tone
  list, and when it was the selected tone the selection goes back to \<^verbatim>\<open>Professional\<close>.
\<close>

theorem handleRemoveCustomTone_removes_and_resets:
  "customTones (handleRemoveCustomTone t s) = filter (\<lambda>x. x \<noteq> t) (customTones s)
   \<and> t \<notin> set (customTones (handleRemoveCustomTone t s))
   \<and> (selectedTone s = t \<longrightarrow> selectedTone (handleRemoveCustomTone t s) = ''Professional'')"
  by (simp add: handleRemoveCustomTone_def Let_def)

theorem handleRemoveCustomTone_removes_and_resets_witness:
  "customTones (handleRemoveCustomTone ''Friendly''
      (initialState\<lparr>customTones := [''Friendly'', ''Bold''], selectedTone := ''Friendly''\<rparr>)) = [''Bold'']
   \<and> selectedTone (handleRemoveCustomTone ''Friendly''
      (initialState\<lparr>customTones := [''Friendly'', ''Bold''], selectedTone := ''Friendly''\<rparr>)) = ''Professional''"
  using handleRemoveCustomTone_removes_and_resets[of "''Friendly''"
      "initialState\<lparr>customTones := [''Friendly'', ''Bold''], selectedTone := ''Friendly''\<rparr>"]
  by (simp add: initialState_def)

text \<open>
  C10. Removal compares by exact string equality and takes out every equal entry of the
  custom-tone list, and nothing else: the predefined tones stay as they are, and when the
  removed tone is not the selected one, no other field of the state changes.
\<close>

theorem handleRemoveCustomTone_frame:
  "set (customTones (handleRemoveCustomTone t s)) = set (customTones s) - {t}
   \<and> customTones (handleRemoveCustomTone t s) = filter (\<lambda>x. x \<noteq> t) (customTones s)
   \<and> predefinedTones = [''Professional'', ''Casual'', ''Crazy'', ''Cool'']
   \<and> allTones (handleRemoveCustomTone t s) = predefinedTones @ filter (\<lambda>x. x \<noteq> t) (customTones s)
   \<and> (selectedTone s \<noteq> t \<longrightarrow>
        handleRemoveCustomTone t s = s\<lparr>customTones := filter (\<lambda>x. x \<noteq> t) (customTones s)\<rparr>)"
proof -
  have c: "customTones (handleRemoveCustomTone t s) = filter (\<lambda>x. x \<noteq> t) (customTones s)"
    by (simp add: handleRemoveCustomTone_def Let_def)
  have "set (filter (\<lambda>x. x \<noteq> t) (customTones s)) = set (customTones s) - {t}"
    by auto
  then have m: "set (customTones (handleRemoveCustomTone t s)) = set (customTones s) - {t}"
    by (simp only: c)
  have p: "predefinedTones = [''Professional'', ''Casual'', ''Crazy'', ''Cool'']"
    by (simp add: predefinedTones_def)
  have a: "allTones (handleRemoveCustomTone t s) = predefinedTones @ filter (\<lambda>x. x \<noteq> t) (customTones s)"
    by (simp only: allTones_def c)
  have f: "selectedTone s \<noteq> t \<longrightarrow>
        handleRemoveCustomTone t s = s\<lparr>customTones := filter (\<lambda>x. x \<noteq> t) (customTones s)\<rparr>"
    by (simp add: handleRemoveCustomTone_def Let_def)
  from m c p a f show ?thesis by (intro conjI)
qed

theorem handleRemoveCustomTone_frame_witness:
  "handleRemoveCustomTone ''friendly''
      (initialState\<lparr>customTones := [''Friendly'', ''friendly'', ''Bold'', ''friendly''], selectedTone := ''Friendly''\<rparr>)
     = initialState\<lparr>customTones := [''Friendly'', ''Bold''], selectedTone := ''Friendly''\<rparr>
   \<and> allTones (handleRemoveCustomTone ''Casual'' (initialState\<lparr>customTones := [''Bold'']\<rparr>))
     = [''Professional'', ''Casual'', ''Crazy'', ''Cool'', ''Bold'']"
proof -
  have 1: "handleRemoveCustomTone ''friendly''
      (initialState\<lparr>customTones := [''Friendly'', ''friendly'', ''Bold'', ''friendly''], selectedTone := ''Friendly''\<rparr>)
     = initialState\<lparr>customTones := [''Friendly'', ''Bold''], selectedTone := ''Friendly''\<rparr>"
    using handleRemoveCustomTone_frame[of "''friendly''"
      "initialState\<lparr>customTones := [''Friendly'', ''friendly'', ''Bold'', ''friendly''], selectedTone := ''Friendly''\<rparr>"]
    by (simp add: initialState_def)
  have 2: "allTones (handleRemoveCustomTone ''Casual'' (initialState\<lparr>customTones := [''Bold'']\<rparr>))
     = [''Professional'', ''Casual'', ''Crazy'', ''Cool'', ''Bold'']"
    by (simp add: initialState_def handleRemoveCustomTone_def allTones_def predefinedTones_def)
  from 1 2 show ?thesis by simp
qed

section \<open>Processing blank input\<close>

text \<open>
  The claim C7 has the Controller set a form error on blank input. It is the API-error state
  that receives the message; the form error stays as it was.
\<close>

theorem blank_input_sets_api_error_not_form_error:
  "formError (fst (handleRefine taskName (api_replies ''Sure! Here you go.'')
      (initialState\<lparr>inputText := ''   ''\<rparr>) world0)) = None
   \<and> apiError (fst (handleRefine taskName (api_replies ''Sure! Here you go.'')
      (initialState\<lparr>inputText := ''   ''\<rparr>) world0)) = Some ''Please enter some text to process.''"
  by (simp add: handleRefine_def trim_examples initialState_def)

text \<open>
  C7, amended. On blank input the Process action sets the API-error state to
  \<^verbatim>\<open>Please enter some text to process.\<close>, empties the output, and returns: no other
  field changes, the Prompt Service is not invoked and no network call is made.
\<close>

theorem handleRefine_blank_input:
  "trim (inputText s) = [] \<Longrightarrow>
   handleRefine taskValue api s w =
     (s\<lparr>apiError := Some ''Please enter some text to process.'', outputText := []\<rparr>, w)"
  by (simp add: handleRefine_def)

theorem handleRefine_blank_input_witness:
  "handleRefine taskName (api_replies ''Sure! Here you go.'') (initialState\<lparr>inputText := ''   ''\<rparr>) world0
     = (initialState\<lparr>inputText := ''   '', apiError := Some ''Please enter some text to process.''\<rparr>, world0)"
  using handleRefine_blank_input[of "initialState\<lparr>inputText := ''   ''\<rparr>" taskName
      "api_replies ''Sure! Here you go.''" world0]
  by (simp add: trim_examples initialState_def)

section \<open>JSON texts of tone lists are read back unchanged\<close>

lemma hexValue_hexDigit_all: "list_all (\<lambda>k. hexValue (hexDigit k) = Some k) [0..<16]"
  by code_simp

lemma hexValue_hexDigit: "k < 16 \<Longrightarrow> hexValue (hexDigit k) = Some k"
  using hexValue_hexDigit_all by (simp add: list_all_iff)

lemma hexValue_zero: "hexValue (CHR ''0'') = Some 0"
  by (simp add: hexValue_def)

lemma hex4_control:
  assumes "n < 32"
  shows "hex4 (CHR ''0'') (CHR ''0'') (hexDigit (n div 16)) (hexDigit (n mod 16)) = Some n"
proof -
  have "n div 16 < 16" using assms by simp
  then have a: "hexValue (hexDigit (n div 16)) = Some (n div 16)" by (rule hexValue_hexDigit)
  have b: "hexValue (hexDigit (n mod 16)) = Some (n mod 16)" by (rule hexValue_hexDigit) simp
  show ?thesis by (simp add: hex4_def hexValue_zero a b)
qed

lemma parseChars_quoteJSONChar:
  "parseChars (quoteJSONChar c @ cs) = consChar c (parseChars cs)"
proof -
  consider (b) "c = CHR 0x08" | (t) "c = CHR 0x09" | (n) "c = CHR 0x0A" | (f) "c = CHR 0x0C"
    | (r) "c = CHR 0x0D" | (q) "c = CHR 0x22" | (s) "c = CHR 0x5C"
    | (u) "c \<notin> {CHR 0x08, CHR 0x09, CHR 0x0A, CHR 0x0C, CHR 0x0D, CHR 0x22, CHR 0x5C}" "(of_char c :: nat) < 32"
    | (o) "c \<notin> {CHR 0x08, CHR 0x09, CHR 0x0A, CHR 0x0C, CHR 0x0D, CHR 0x22, CHR 0x5C}" "\<not> (of_char c :: nat) < 32"
    by blast
  then show ?thesis
  proof cases
    case u
    have h: "hex4 (CHR ''0'') (CHR ''0'') (hexDigit (of_char c div 16)) (hexDigit (of_char c mod 16)) = Some (of_char c)"
      using u(2) by (rule hex4_control)
    have lt: "(of_char c :: nat) < 256" using u(2) by simp
    from u(1) have "quoteJSONChar c = [CHR 0x5C, CHR ''u'', CHR ''0'', CHR ''0'',
            hexDigit ((of_char c :: nat) div 16), hexDigit ((of_char c :: nat) mod 16)]"
      using u(2) by (simp add: quoteJSONChar_def)
    then show ?thesis
      by (simp add: h lt)
  next
    case o
    then have "quoteJSONChar c = [c]" by (simp add: quoteJSONChar_def)
    then show ?thesis using o by simp
  qed (simp_all add: quoteJSONChar_def unescape_def)
qed

lemma parseChars_quoted:
  "parseChars (concat (map quoteJSONChar s) @ CHR 0x22 # rest) = Some (s, rest)"
  by (induction s) (simp_all add: parseChars_quoteJSONChar consChar_def)


lemma not_ws_punctuation:
  "\<not> isJSONWhiteSpace (CHR 0x22)" "\<not> isJSONWhiteSpace (CHR '']'')"
  "\<not> isJSONWhiteSpace (CHR '','')" "\<not> isJSONWhiteSpace (CHR ''['')"
  by (simp_all add: isJSONWhiteSpace_def)

lemma parseElements_quoted_last:
  "parseElements (quoteJSONString x @ CHR '']'' # rest) = Some ([x], rest)"
  by (subst parseElements.simps)
     (simp add: quoteJSONString_def not_ws_punctuation parseChars_quoted
        del: parseElements.simps)

lemma parseElements_quoted_more:
  "parseElements (quoteJSONString x @ CHR '','' # tail) =
     (case parseElements tail of None \<Rightarrow> None | Some (xs, r) \<Rightarrow> Some (x # xs, r))"
  by (subst parseElements.simps)
     (simp add: quoteJSONString_def not_ws_punctuation parseChars_quoted
        del: parseElements.simps)

lemma parseElements_joined:
  "parseElements (joinWith '','' (map quoteJSONString (x # xs)) @ CHR '']'' # rest) = Some (x # xs, rest)"
proof (induction xs arbitrary: x)
  case Nil
  show ?case by (simp add: parseElements_quoted_last del: parseElements.simps)
next
  case (Cons y ys)
  have "joinWith '','' (map quoteJSONString (x # y # ys)) @ CHR '']'' # rest =
      quoteJSONString x @ CHR '','' # (joinWith '','' (map quoteJSONString (y # ys)) @ CHR '']'' # rest)"
    by simp
  then show ?case
    by (simp only: parseElements_quoted_more Cons.IH option.case prod.case)
qed

lemma JSON_roundtrip: "JSON_parse (JSON_stringify xs) = Some xs"
proof (cases xs)
  case Nil
  then show ?thesis
    by (simp add: JSON_parse_def JSON_stringify_def not_ws_punctuation)
next
  case (Cons y ys)
  have "\<exists>cs. joinWith '','' (map quoteJSONString (y # ys)) @ '']'' = CHR 0x22 # cs"
    by (cases ys) (simp_all add: quoteJSONString_def)
  then obtain cs where cs: "joinWith '','' (map quoteJSONString (y # ys)) @ '']'' = CHR 0x22 # cs" ..
  have pe: "parseElements (CHR 0x22 # cs) = Some (y # ys, [])"
    using parseElements_joined[of y ys "[]"] by (simp only: cs)
  have "JSON_parse (CHR ''['' # CHR 0x22 # cs) = Some (y # ys)"
    by (simp add: JSON_parse_def not_ws_punctuation pe del: parseElements.simps)
  then have "JSON_parse (CHR ''['' # (joinWith '','' (map quoteJSONString (y # ys)) @ '']'')) = Some (y # ys)"
    by (simp only: cs)
  then show ?thesis
    by (simp only: JSON_stringify_def Cons append_Cons append_Nil)
qed

section \<open>The persisted custom tones\<close>

lemma list_ex_eq_member: "list_ex (\<lambda>t. f t = c) l \<longleftrightarrow> c \<in> set (map f l)"
  by (induction l) auto

lemma customTones_add:
  "customTones (handleAddCustomTone (onCustomToneInputChange v s)) = addToList v (customTones s)"
proof -
  have i: "customToneInput (onCustomToneInputChange v s) = v"
    and c: "customTones (onCustomToneInputChange v s) = customTones s"
    by (simp_all add: onCustomToneInputChange_def Let_def split: option.split)
  have e: "list_ex (\<lambda>t. toLowerCase t = toLowerCase (trim v)) (predefinedTones @ xs)
      \<longleftrightarrow> toLowerCase (trim v) \<in> set (map toLowerCase (predefinedTones @ xs))" for xs
    by (rule list_ex_eq_member)
  show ?thesis
    by (simp only: handleAddCustomTone_def addToList_def allTones_def i c e Let_def)
       (simp add: c)
qed

lemma customTones_remove:
  "customTones (handleRemoveCustomTone t s) = removeAll t (customTones s)"
  by (simp add: handleRemoveCustomTone_def Let_def removeAll_filter_not_eq) metis

lemma saveCustomTones_accepted:
  "accepts CUSTOM_TONES_STORAGE_KEY (JSON_stringify (customTones s)) \<Longrightarrow>
   saveCustomTones accepts s w =
     (s, w\<lparr>localStorage := (localStorage w)(CUSTOM_TONES_STORAGE_KEY \<mapsto> JSON_stringify (customTones s))\<rparr>)"
  by (simp add: saveCustomTones_def setItem_def)

lemma performOp_step:
  assumes acc: "\<forall>k v. accepts k v"
    and sync: "localStorage w CUSTOM_TONES_STORAGE_KEY = Some (JSON_stringify (customTones s))"
  shows "customTones (fst (performOp accepts op s w)) = replay [op] (customTones s)
       \<and> localStorage (snd (performOp accepts op s w)) CUSTOM_TONES_STORAGE_KEY
           = Some (JSON_stringify (replay [op] (customTones s)))"
proof (cases op)
  case (AddTone v)
  let ?s1 = "onCustomToneInputChange v s"
  let ?s2 = "handleAddCustomTone ?s1"
  have c1: "customTones ?s1 = customTones s"
    by (simp add: onCustomToneInputChange_def Let_def split: option.split)
  have c2: "customTones ?s2 = addToList v (customTones s)" by (rule customTones_add)
  show ?thesis
  proof (cases "customTones ?s2 = customTones ?s1")
    case True
    then have "performOp accepts op s w = (?s2, w)"
      by (simp add: performOp_def AddTone Let_def)
    then show ?thesis using True c1 c2 sync AddTone by simp
  next
    case False
    then have "performOp accepts op s w = saveCustomTones accepts ?s2 w"
      by (simp add: performOp_def AddTone Let_def)
    then show ?thesis using c2 AddTone by (simp add: saveCustomTones_accepted acc)
  qed
next
  case (RemoveTone t)
  have "performOp accepts op s w = saveCustomTones accepts (handleRemoveCustomTone t s) w"
    by (simp add: performOp_def RemoveTone)
  then show ?thesis using RemoveTone
    by (simp add: saveCustomTones_accepted acc customTones_remove)
qed

lemma replay_append: "replay (op # ops) xs = replay ops (replay [op] xs)"
  by (cases op) simp_all

lemma trim_examples_more: "trim ''CASUAL'' = ''CASUAL''"
  by (simp add: trim_def isWhiteSpace_def)

lemma replay_example:
  "replay [AddTone '' Friendly '', AddTone ''CASUAL'', AddTone ''Bold'', RemoveTone ''Friendly''] []
     = [''Bold'']"
  by (simp add: addToList_def predefinedTones_def trim_examples trim_examples_more
      toLowerCase_examples)

lemma JSON_stringify_example:
  "JSON_stringify [''Bold''] = ''['' @ [CHR 0x22] @ ''Bold'' @ [CHR 0x22] @ '']''"
  by (simp add: JSON_stringify_def quoteJSONString_def quoteJSONChar_def)

lemma JSON_stringify_Nil: "JSON_stringify [] = ''[]''"
  by (simp add: JSON_stringify_def)

text \<open>
  The claim C9 speaks of every sequence of operations, whatever the store does. The saving
  effect catches a write that the store rejects: after the first render has saved the empty
  list, an addition whose write is rejected leaves \<^verbatim>\<open>[]\<close> in the store, while the list in
  memory, and the replayed list, hold the new tone.
\<close>

theorem rejected_write_store_differs_from_replay:
  "customTones (fst (performOps neverAccepts [AddTone ''Bold''] initialState
       (snd (saveCustomTones alwaysAccepts initialState world0)))) = [''Bold'']
   \<and> replay [AddTone ''Bold''] (customTones initialState) = [''Bold'']
   \<and> localStorage (snd (performOps neverAccepts [AddTone ''Bold''] initialState
       (snd (saveCustomTones alwaysAccepts initialState world0)))) CUSTOM_TONES_STORAGE_KEY = Some ''[]''
   \<and> JSON_parse ''[]'' = Some []
   \<and> formError (fst (performOps neverAccepts [AddTone ''Bold''] initialState
       (snd (saveCustomTones alwaysAccepts initialState world0)))) = Some ''Could not save custom tones.''"
proof -
  let ?w0 = "snd (saveCustomTones alwaysAccepts initialState world0)"
  have w0: "localStorage ?w0 CUSTOM_TONES_STORAGE_KEY = Some ''[]''"
    by (simp add: saveCustomTones_def setItem_def alwaysAccepts_def initialState_def
        JSON_stringify_Nil)
  have add: "handleAddCustomTone (onCustomToneInputChange ''Bold'' initialState)
      = initialState\<lparr>customTones := [''Bold'']\<rparr>"
    by (simp add: handleAddCustomTone_def onCustomToneInputChange_def initialState_def
        allTones_def predefinedTones_def trim_examples toLowerCase_examples)
  have op: "performOps neverAccepts [AddTone ''Bold''] initialState ?w0
      = saveCustomTones neverAccepts (initialState\<lparr>customTones := [''Bold'']\<rparr>) ?w0"
    by (simp add: performOp_def Let_def add split_beta)
       (simp add: onCustomToneInputChange_def initialState_def)
  have save: "saveCustomTones neverAccepts (initialState\<lparr>customTones := [''Bold'']\<rparr>) ?w0
      = (initialState\<lparr>customTones := [''Bold''], formError := Some ''Could not save custom tones.''\<rparr>,
         ?w0\<lparr>console := console ?w0 @ [''Failed to save custom tones to localStorage'']\<rparr>)"
    by (simp add: saveCustomTones_def setItem_def neverAccepts_def)
  have r: "replay [AddTone ''Bold''] (customTones initialState) = [''Bold'']"
    by (simp add: addToList_def predefinedTones_def initialState_def trim_examples
        toLowerCase_examples)
  have p: "JSON_parse ''[]'' = Some []"
    using JSON_roundtrip[of "[]"] by (simp only: JSON_stringify_Nil)
  show ?thesis
    by (simp only: op save fst_conv snd_conv r p) (simp add: w0)
qed

text \<open>
  C9, amended. Provided the store accepts every write and holds the serialized list before
  the first operation (as it does once the saving effect of the first render has run), after
  any sequence of add and remove operations the custom-tone list held by the durable store is
  the list obtained by replaying the operations on an in-memory list; and a list of tone
  strings serialized to JSON and deserialized is the same list.
\<close>

theorem persisted_tones_equal_replay:
  assumes acc: "\<forall>k v. accepts k v"
    and sync: "localStorage w CUSTOM_TONES_STORAGE_KEY = Some (JSON_stringify (customTones s))"
  shows "customTones (fst (performOps accepts ops s w)) = replay ops (customTones s)
       \<and> localStorage (snd (performOps accepts ops s w)) CUSTOM_TONES_STORAGE_KEY
           = Some (JSON_stringify (replay ops (customTones s)))
       \<and> JSON_parse (JSON_stringify (replay ops (customTones s))) = Some (replay ops (customTones s))
       \<and> JSON_parse (JSON_stringify tones) = Some tones"
proof -
  have "customTones (fst (performOps accepts ops s w)) = replay ops (customTones s)
       \<and> localStorage (snd (performOps accepts ops s w)) CUSTOM_TONES_STORAGE_KEY
           = Some (JSON_stringify (replay ops (customTones s)))"
    using sync
  proof (induction ops arbitrary: s w)
    case Nil
    then show ?case by simp
  next
    case (Cons op ops)
    obtain s1 w1 where p: "performOp accepts op s w = (s1, w1)" by (cases "performOp accepts op s w")
    from performOp_step[where op=op, OF acc Cons.prems] p
    have st: "customTones s1 = replay [op] (customTones s)"
      and sy: "localStorage w1 CUSTOM_TONES_STORAGE_KEY = Some (JSON_stringify (customTones s1))"
      by simp_all
    from Cons.IH[OF sy] show ?case
      by (simp add: p st replay_append[of op ops])
  qed
  then show ?thesis
    by (simp add: JSON_roundtrip)
qed


theorem persisted_tones_equal_replay_witness:
  "customTones (fst (performOps alwaysAccepts
       [AddTone '' Friendly '', AddTone ''CASUAL'', AddTone ''Bold'', RemoveTone ''Friendly'']
       initialState (snd (saveCustomTones alwaysAccepts initialState world0)))) = [''Bold'']
   \<and> localStorage (snd (performOps alwaysAccepts
       [AddTone '' Friendly '', AddTone ''CASUAL'', AddTone ''Bold'', RemoveTone ''Friendly'']
       initialState (snd (saveCustomTones alwaysAccepts initialState world0))))
       CUSTOM_TONES_STORAGE_KEY = Some (''['' @ [CHR 0x22] @ ''Bold'' @ [CHR 0x22] @ '']'')
   \<and> JSON_parse (''['' @ [CHR 0x22] @ ''Bold'' @ [CHR 0x22] @ '']'') = Some [''Bold'']"
proof -
  have acc: "\<forall>k v. alwaysAccepts k v"
    by (simp add: alwaysAccepts_def)
  have sync: "localStorage (snd (saveCustomTones alwaysAccepts initialState world0)) CUSTOM_TONES_STORAGE_KEY
      = Some (JSON_stringify (customTones initialState))"
    by (simp add: saveCustomTones_def setItem_def alwaysAccepts_def)
  have init: "customTones initialState = []"
    by (simp add: initialState_def)
  from persisted_tones_equal_replay[OF acc sync,
      of "[AddTone '' Friendly '', AddTone ''CASUAL'', AddTone ''Bold'', RemoveTone ''Friendly'']" "[''Bold'']"]
  show ?thesis
    by (simp only: init replay_example JSON_stringify_example)
qed

text \<open>
  When the store throws on a write, the effect reports a form error and the store keeps
  what it held.
\<close>

lemma rejected_write_leaves_store:
  "saveCustomTones neverAccepts (initialState\<lparr>customTones := [''Bold'']\<rparr>) world0
     = (initialState\<lparr>customTones := [''Bold''], formError := Some ''Could not save custom tones.''\<rparr>,
        world0\<lparr>console := [''Failed to save custom tones to localStorage'']\<rparr>)"
  by (simp add: saveCustomTones_def setItem_def neverAccepts_def world0_def initialState_def)

end
